theory Spec2Isabelle
  imports Main
begin

section \<open>The flight-data plotting script \<^verbatim>\<open>plots/sample.py\<close>\<close>

text \<open>
  The script has one function, \<^verbatim>\<open>plot_flight_data(csv_path)\<close>, and an entry point that
  calls it with a fixed path. The function reads a CSV file with pandas, builds one
  matplotlib figure with three 3D axes and shows it. The function is embedded statement
  by statement; the library calls it makes (\<^verbatim>\<open>pd.read_csv\<close>, \<^verbatim>\<open>df[...]\<close>,
  \<^verbatim>\<open>plt.figure\<close>, \<^verbatim>\<open>fig.add_subplot\<close>, \<^verbatim>\<open>ax.plot\<close>, the setters,
  \<^verbatim>\<open>plt.tight_layout\<close>, \<^verbatim>\<open>plt.show\<close>) are modelled by what they do to the data the
  script hands them. Numbers are never computed with, only passed from the file to the
  plot, so the type of a number is a parameter \<open>'v\<close>; what matters of a field is
  whether it is a number at all.
\<close>

subsection \<open>Files\<close>

text \<open>
  A field of a CSV data line holds a number, or is empty, or holds text that is not a
  number. pandas reads an empty field, and a field that a short line lacks, as the
  missing value NaN, which is a floating-point number; text stays text.
\<close>

datatype 'v cell = Val 'v | NaN | Text string

fun numeric :: "'v cell \<Rightarrow> bool" where
  "numeric (Text _) = False"
| "numeric _ = True"

text \<open>A CSV file: its header line and its data lines, both in file order.\<close>

record 'v csv =
  header :: "string list"
  records :: "'v cell list list"

text \<open>What a path refers to.\<close>

datatype 'v entry = NoEntry | NoPermission | File "'v csv"

type_synonym 'v filesystem = "string \<Rightarrow> 'v entry"

subsection \<open>Exceptions\<close>

text \<open>
  The Python exceptions the function can end with. The first four are raised while the
  file is loaded, \<open>KeyError\<close> by a column lookup, \<open>ValueError\<close> by a plot call whose
  arguments do not fit together or hold text where a number is needed.
\<close>

datatype error =
    FileNotFoundError string
  | PermissionError string
  | EmptyDataError
  | ParserError
  | KeyError string
  | ValueError

fun is_data_access :: "error \<Rightarrow> bool" where
  "is_data_access (FileNotFoundError _) = True"
| "is_data_access (PermissionError _) = True"
| "is_data_access EmptyDataError = True"
| "is_data_access ParserError = True"
| "is_data_access _ = False"

fun is_schema :: "error \<Rightarrow> bool" where
  "is_schema (KeyError _) = True"
| "is_schema _ = False"

subsection \<open>The table: \<^verbatim>\<open>pd.read_csv\<close> and \<^verbatim>\<open>df[name]\<close>\<close>

type_synonym 'v series = "'v cell list"

text \<open>A DataFrame: its columns in header order, each with its name.\<close>

type_synonym 'v dataframe = "(string \<times> 'v series) list"

definition field :: "'v cell list \<Rightarrow> nat \<Rightarrow> 'v cell" where
  "field r j = (if j < length r then r ! j else NaN)"

text \<open>
  With \<open>n\<close> header names, a first data line of \<open>n + k\<close> fields makes pandas take
  its first \<open>k\<close> fields as the row index.
\<close>

definition leading_cols :: "'v csv \<Rightarrow> nat" where
  "leading_cols f =
     (case records f of [] \<Rightarrow> 0 | r # _ \<Rightarrow> length r - length (header f))"

text \<open>
  \<^verbatim>\<open>pd.read_csv(path)\<close> with its default arguments. A missing file and an unreadable one
  raise; a file with no header line raises \<open>EmptyDataError\<close>. With \<open>n\<close> header names and
  \<open>k\<close> index fields, the column of the \<open>j\<close>-th header name is field \<open>j + k\<close> of every
  data line; a line with more than \<open>n + k\<close> fields raises \<open>ParserError\<close>, a line with
  fewer is filled up with NaN. (pandas renames the second and later columns of one name
  to \<open>name.1\<close>, \<open>name.2\<close>; here they keep their name, and a lookup finds the first one.)
\<close>

definition read_csv :: "'v filesystem \<Rightarrow> string \<Rightarrow> error + 'v dataframe" where
  "read_csv fs path =
     (case fs path of
        NoEntry \<Rightarrow> Inl (FileNotFoundError path)
      | NoPermission \<Rightarrow> Inl (PermissionError path)
      | File f \<Rightarrow>
          if header f = [] then Inl EmptyDataError
          else if list_ex (\<lambda>r. length (header f) + leading_cols f < length r) (records f)
          then Inl ParserError
          else Inr (map (\<lambda>j. (header f ! j,
                              map (\<lambda>r. field r (j + leading_cols f)) (records f)))
                        [0..<length (header f)]))"

text \<open>\<^verbatim>\<open>df[name]\<close>: the column of that name, \<open>KeyError\<close> when there is none.\<close>

definition getitem :: "'v dataframe \<Rightarrow> string \<Rightarrow> error + 'v series" where
  "getitem df name =
     (case map_of df name of None \<Rightarrow> Inl (KeyError name) | Some col \<Rightarrow> Inr col)"

subsection \<open>Figures and the state of \<^verbatim>\<open>matplotlib.pyplot\<close>\<close>

type_synonym 'v vertex = "'v cell \<times> 'v cell \<times> 'v cell"

text \<open>
  A 3D axes object (a panel): where it sits in the figure (the argument of
  \<^verbatim>\<open>add_subplot\<close>), its projection, the lines plotted on it, each an ordered list of
  vertices, its title and its three axis labels. A new axes has no line and empty texts.
\<close>

record 'v axes3d =
  geometry :: nat
  projection :: string
  lines :: "'v vertex list list"
  title :: string
  xlabel :: string
  ylabel :: string
  zlabel :: string

text \<open>A figure: its size in inches when one was given, its axes in the order added.\<close>

record 'v figure =
  figsize :: "(nat \<times> nat) option"
  axes :: "'v axes3d list"
  tight :: bool

text \<open>
  The state the script works on: the figure objects created so far (an object's address
  is its index in \<open>heap\<close>; objects are never moved), the addresses of the figures pyplot
  holds open, the most recent last, whether the backend is interactive, and what every
  call of \<^verbatim>\<open>plt.show\<close> has put on the screen.
\<close>

record 'v pyplot =
  interactive :: bool
  heap :: "'v figure list"
  managed :: "nat list"
  screen :: "'v figure list list"

subsection \<open>Statements in sequence\<close>

text \<open>
  A statement takes the state and gives the new state with either a value or the
  exception it raised. \<open>seq\<close> runs a statement and then the rest of the block with its
  value; an exception skips the rest and keeps the state as it was when raised.
\<close>

type_synonym ('v, 'a) stmt = "'v pyplot \<Rightarrow> (error + 'a) \<times> 'v pyplot"

definition seq :: "('v, 'a) stmt \<Rightarrow> ('a \<Rightarrow> ('v, 'b) stmt) \<Rightarrow> ('v, 'b) stmt" where
  "seq m f s = (case m s of (Inl e, s') \<Rightarrow> (Inl e, s') | (Inr a, s') \<Rightarrow> f a s')"

definition result :: "error + 'a \<Rightarrow> ('v, 'a) stmt" where
  "result r s = (r, s)"

subsection \<open>The matplotlib calls\<close>

definition modify_figure :: "nat \<Rightarrow> ('v figure \<Rightarrow> 'v figure) \<Rightarrow> 'v pyplot \<Rightarrow> 'v pyplot" where
  "modify_figure fig g s = s\<lparr>heap := (heap s)[fig := g (heap s ! fig)]\<rparr>"

definition modify_axes ::
  "nat \<times> nat \<Rightarrow> ('v axes3d \<Rightarrow> 'v axes3d) \<Rightarrow> 'v pyplot \<Rightarrow> 'v pyplot" where
  "modify_axes ax g s =
     modify_figure (fst ax) (\<lambda>f. f\<lparr>axes := (axes f)[snd ax := g (axes f ! snd ax)]\<rparr>) s"

text \<open>\<^verbatim>\<open>plt.figure(figsize=...)\<close>: a new, empty figure, held open by pyplot.\<close>

definition figure :: "(nat \<times> nat) option \<Rightarrow> ('v, nat) stmt" where
  "figure dims s =
     (Inr (length (heap s)),
      s\<lparr>heap := heap s @ [\<lparr>figsize = dims, axes = [], tight = False\<rparr>],
        managed := managed s @ [length (heap s)]\<rparr>)"

text \<open>\<^verbatim>\<open>fig.add_subplot(code, projection=...)\<close>: a new axes, added to the figure.\<close>

definition add_subplot :: "nat \<Rightarrow> nat \<Rightarrow> string \<Rightarrow> ('v, nat \<times> nat) stmt" where
  "add_subplot fig code proj s =
     (Inr (fig, length (axes (heap s ! fig))),
      modify_figure fig
        (\<lambda>f. f\<lparr>axes := axes f @
                 [\<lparr>geometry = code, projection = proj, lines = [], title = [],
                   xlabel = [], ylabel = [], zlabel = []\<rparr>]\<rparr>) s)"

text \<open>
  numpy's broadcasting of one-dimensional arrays: arrays of length 1 stretch to the
  length the others share.
\<close>

definition broadcast_length :: "nat list \<Rightarrow> nat option" where
  "broadcast_length ns =
     (case remdups (filter (\<lambda>n. n \<noteq> 1) ns) of
        [] \<Rightarrow> Some 1
      | [n] \<Rightarrow> Some n
      | _ \<Rightarrow> None)"

definition stretch :: "nat \<Rightarrow> 'a list \<Rightarrow> 'a list" where
  "stretch n xs = (if length xs = n then xs else replicate n (hd xs))"

text \<open>
  \<^verbatim>\<open>ax.plot(xs, ys, zs)\<close> on a 3D axes: one more line, whose \<open>i\<close>-th vertex is
  \<open>(xs[i], ys[i], zs[i])\<close>. It raises \<open>ValueError\<close> when the three do not broadcast,
  before anything is done to the axes. It attaches the line to the axes and then turns
  the values into floating-point numbers: a value that is text raises \<open>ValueError\<close>
  there, with the line already on the axes.
\<close>

definition plot :: "nat \<times> nat \<Rightarrow> 'v series \<Rightarrow> 'v series \<Rightarrow> 'v series \<Rightarrow> ('v, unit) stmt" where
  "plot ax xs ys zs s =
     (case broadcast_length [length xs, length ys, length zs] of
        None \<Rightarrow> (Inl ValueError, s)
      | Some n \<Rightarrow>
          (if list_all numeric (xs @ ys @ zs) then Inr () else Inl ValueError,
           modify_axes ax
             (\<lambda>a. a\<lparr>lines := lines a @ [zip (stretch n xs) (zip (stretch n ys) (stretch n zs))]\<rparr>)
             s))"

definition set_title :: "nat \<times> nat \<Rightarrow> string \<Rightarrow> ('v, unit) stmt" where
  "set_title ax label s = (Inr (), modify_axes ax (\<lambda>a. a\<lparr>title := label\<rparr>) s)"

definition set_xlabel :: "nat \<times> nat \<Rightarrow> string \<Rightarrow> ('v, unit) stmt" where
  "set_xlabel ax label s = (Inr (), modify_axes ax (\<lambda>a. a\<lparr>xlabel := label\<rparr>) s)"

definition set_ylabel :: "nat \<times> nat \<Rightarrow> string \<Rightarrow> ('v, unit) stmt" where
  "set_ylabel ax label s = (Inr (), modify_axes ax (\<lambda>a. a\<lparr>ylabel := label\<rparr>) s)"

definition set_zlabel :: "nat \<times> nat \<Rightarrow> string \<Rightarrow> ('v, unit) stmt" where
  "set_zlabel ax label s = (Inr (), modify_axes ax (\<lambda>a. a\<lparr>zlabel := label\<rparr>) s)"

text \<open>
  \<^verbatim>\<open>plt.tight_layout()\<close> adjusts the spacing of the current figure, the one pyplot
  opened last (with no figure open, pyplot opens one of the default size first).
\<close>

definition tight_layout :: "('v, unit) stmt" where
  "tight_layout s =
     (let s' = (if managed s = [] then snd (figure None s) else s)
      in (Inr (), modify_figure (last (managed s')) (\<lambda>f. f\<lparr>tight := True\<rparr>) s'))"

text \<open>
  \<^verbatim>\<open>plt.show()\<close>: an interactive backend displays every open figure and returns when
  the viewer has closed them all, which also closes them in pyplot; any other backend
  displays nothing and returns at once.
\<close>

definition "show" :: "('v, unit) stmt" where
  "show s =
     (if interactive s
      then (Inr (), s\<lparr>managed := [], screen := screen s @ [map (\<lambda>a. heap s ! a) (managed s)]\<rparr>)
      else (Inr (), s))"

subsection \<open>The script\<close>

text \<open>The character U+00B2, superscript two, of the acceleration labels.\<close>

definition sup2 :: char where
  "sup2 = CHR 0xB2"

definition plot_flight_data :: "'v filesystem \<Rightarrow> string \<Rightarrow> ('v, unit) stmt" where
  "plot_flight_data fs csv_path =
     seq (result (read_csv fs csv_path)) (\<lambda>df.
     seq (figure (Some (15, 5))) (\<lambda>fig.
     seq (add_subplot fig 131 ''3d'') (\<lambda>ax1.
     seq (result (getitem df ''Sx'')) (\<lambda>sx.
     seq (result (getitem df ''Sy'')) (\<lambda>sy.
     seq (result (getitem df ''Sz'')) (\<lambda>sz.
     seq (plot ax1 sx sy sz) (\<lambda>_.
     seq (set_title ax1 ''Position'') (\<lambda>_.
     seq (set_xlabel ax1 ''X (m)'') (\<lambda>_.
     seq (set_ylabel ax1 ''Y (m)'') (\<lambda>_.
     seq (set_zlabel ax1 ''Z (m)'') (\<lambda>_.
     seq (add_subplot fig 132 ''3d'') (\<lambda>ax2.
     seq (result (getitem df ''Vx'')) (\<lambda>vx.
     seq (result (getitem df ''Vy'')) (\<lambda>vy.
     seq (result (getitem df ''Vz'')) (\<lambda>vz.
     seq (plot ax2 vx vy vz) (\<lambda>_.
     seq (set_title ax2 ''Velocity'') (\<lambda>_.
     seq (set_xlabel ax2 ''X (m/s)'') (\<lambda>_.
     seq (set_ylabel ax2 ''Y (m/s)'') (\<lambda>_.
     seq (set_zlabel ax2 ''Z (m/s)'') (\<lambda>_.
     seq (add_subplot fig 133 ''3d'') (\<lambda>ax3.
     seq (result (getitem df ''Ax'')) (\<lambda>ax.
     seq (result (getitem df ''Ay'')) (\<lambda>ay.
     seq (result (getitem df ''Az'')) (\<lambda>az.
     seq (plot ax3 ax ay az) (\<lambda>_.
     seq (set_title ax3 ''Acceleration'') (\<lambda>_.
     seq (set_xlabel ax3 (''X (m/s'' @ [sup2] @ '')'')) (\<lambda>_.
     seq (set_ylabel ax3 (''Y (m/s'' @ [sup2] @ '')'')) (\<lambda>_.
     seq (set_zlabel ax3 (''Z (m/s'' @ [sup2] @ '')'')) (\<lambda>_.
     seq tight_layout (\<lambda>_.
     show))))))))))))))))))))))))))))))"

text \<open>
  The entry point: the body of the module runs the function when the module is the
  program (\<^verbatim>\<open>__name__ == "__main__"\<close>), with a literal path. \<open>argv\<close> is the argument
  vector of the process, which the module never reads.
\<close>

definition script_path :: string where
  "script_path = ''/Users/adambyrne/.launchrail/motion/2025-01-26T21:47:39.csv''"

definition main :: "string \<Rightarrow> string list \<Rightarrow> 'v filesystem \<Rightarrow> ('v, unit) stmt" where
  "main name argv fs s =
     (if name = ''__main__'' then plot_flight_data fs script_path s else (Inr (), s))"


section \<open>Vocabulary of the specification\<close>

text \<open>The nine columns the function looks up, in the order in which it does.\<close>

definition required_columns :: "string list" where
  "required_columns = [''Sx'', ''Sy'', ''Sz'', ''Vx'', ''Vy'', ''Vz'', ''Ax'', ''Ay'', ''Az'']"

text \<open>The position of the first header entry with a given name.\<close>

fun index_of :: "'a list \<Rightarrow> 'a \<Rightarrow> nat" where
  "index_of [] c = 0"
| "index_of (x # xs) c = (if x = c then 0 else Suc (index_of xs c))"

text \<open>The values a file holds under a column name, line by line.\<close>

definition column :: "'v csv \<Rightarrow> string \<Rightarrow> 'v cell list" where
  "column f c = map (\<lambda>r. r ! index_of (header f) c) (records f)"

text \<open>
  A well-formed input file: the header has the nine names, every data line has one
  field for each header name, and the nine columns hold numbers.
\<close>

definition well_formed :: "'v csv \<Rightarrow> bool" where
  "well_formed f \<longleftrightarrow>
     list_all (\<lambda>c. c \<in> set (header f)) required_columns \<and>
     list_all (\<lambda>r. length r = length (header f)) (records f) \<and>
     list_all (\<lambda>c. list_all numeric (column f c)) required_columns"

text \<open>A readable file: one that \<open>read_csv\<close> loads.\<close>

definition readable :: "'v filesystem \<Rightarrow> string \<Rightarrow> bool" where
  "readable fs path = (case read_csv fs path of Inl _ \<Rightarrow> False | Inr _ \<Rightarrow> True)"

text \<open>The triples a well-formed file holds under three column names, line by line.\<close>

definition triples :: "'v csv \<Rightarrow> string \<Rightarrow> string \<Rightarrow> string \<Rightarrow> 'v vertex list" where
  "triples f a b c =
     map (\<lambda>r. (r ! index_of (header f) a, r ! index_of (header f) b, r ! index_of (header f) c))
       (records f)"

text \<open>
  The figure a call built: the first object allocated after the state \<open>s\<close> the call
  started in.
\<close>

definition built :: "'v pyplot \<Rightarrow> 'v pyplot \<Rightarrow> 'v figure" where
  "built s s' = heap s' ! length (heap s)"

text \<open>
  No panel of a figure created since state \<open>s\<close> has a line, a title or a label.
\<close>

definition nothing_drawn :: "'v pyplot \<Rightarrow> 'v pyplot \<Rightarrow> bool" where
  "nothing_drawn s s' \<longleftrightarrow>
     list_all
       (\<lambda>F. list_all
          (\<lambda>a. lines a = [] \<and> title a = [] \<and> xlabel a = [] \<and> ylabel a = [] \<and> zlabel a = [])
          (axes F))
       (drop (length (heap s)) (heap s'))"

subsection \<open>What a run leaves behind\<close>

text \<open>An axes as \<open>add_subplot\<close> makes it, and the figure of a run that plotted three lines.\<close>

definition blank_panel :: "nat \<Rightarrow> 'v axes3d" where
  "blank_panel code =
     \<lparr>geometry = code, projection = ''3d'', lines = [], title = [],
      xlabel = [], ylabel = [], zlabel = []\<rparr>"

definition expected_figure ::
  "'v vertex list \<Rightarrow> 'v vertex list \<Rightarrow> 'v vertex list \<Rightarrow> 'v figure" where
  "expected_figure ps vs as =
     \<lparr>figsize = Some (15, 5),
      axes =
        [\<lparr>geometry = 131, projection = ''3d'', lines = [ps], title = ''Position'',
          xlabel = ''X (m)'', ylabel = ''Y (m)'', zlabel = ''Z (m)''\<rparr>,
         \<lparr>geometry = 132, projection = ''3d'', lines = [vs], title = ''Velocity'',
          xlabel = ''X (m/s)'', ylabel = ''Y (m/s)'', zlabel = ''Z (m/s)''\<rparr>,
         \<lparr>geometry = 133, projection = ''3d'', lines = [as], title = ''Acceleration'',
          xlabel = ''X (m/s'' @ [sup2] @ '')'', ylabel = ''Y (m/s'' @ [sup2] @ '')'',
          zlabel = ''Z (m/s'' @ [sup2] @ '')''\<rparr>],
      tight = True\<rparr>"

text \<open>The state after a run that started in \<open>s\<close>, built \<open>F\<close> and showed it.\<close>

definition after_show :: "'v pyplot \<Rightarrow> 'v figure \<Rightarrow> 'v pyplot" where
  "after_show s F =
     (if interactive s
      then s\<lparr>heap := heap s @ [F], managed := [],
             screen := screen s @ [map (\<lambda>a. (heap s @ [F]) ! a) (managed s @ [length (heap s)])]\<rparr>
      else s\<lparr>heap := heap s @ [F], managed := managed s @ [length (heap s)]\<rparr>)"

text \<open>
  The column \<open>read_csv\<close> makes of a header name in any file it loads; the columns the
  function has plotted when it looks up column \<open>c\<close>, those of the panels before the
  panel of \<open>c\<close>; and the figure of a run that stopped at a lookup in panel \<open>k\<close>
  (counted from 0): the panels before it finished, panel \<open>k\<close> as \<open>add_subplot\<close> made it.
\<close>

definition series :: "'v csv \<Rightarrow> string \<Rightarrow> 'v series" where
  "series f c = map (\<lambda>r. field r (index_of (header f) c + leading_cols f)) (records f)"

definition plotted_before :: "string \<Rightarrow> string list" where
  "plotted_before c = take (3 * (index_of required_columns c div 3)) required_columns"

definition numeric_columns :: "'v csv \<Rightarrow> string list \<Rightarrow> bool" where
  "numeric_columns f cs = list_all (\<lambda>c. list_all numeric (series f c)) cs"

definition partial_figure :: "'v csv \<Rightarrow> nat \<Rightarrow> 'v figure" where
  "partial_figure f k =
     \<lparr>figsize = Some (15, 5),
      axes = take k (axes (expected_figure
                 (zip (series f ''Sx'') (zip (series f ''Sy'') (series f ''Sz'')))
                 (zip (series f ''Vx'') (zip (series f ''Vy'') (series f ''Vz'')))
                 (zip (series f ''Ax'') (zip (series f ''Ay'') (series f ''Az'')))))
             @ [blank_panel (131 + k)],
      tight = False\<rparr>"

subsection \<open>Example inputs\<close>

text \<open>
  Two files with the same nine columns, in different column order and with different
  further columns; a file that lacks \<open>Vx\<close> and \<open>Az\<close>; a file with a header and no
  data line; a file that lacks \<open>Vx\<close> and has text under \<open>Sx\<close>.
\<close>

definition flight_file :: "int csv" where
  "flight_file =
     \<lparr>header = [''t'', ''Sx'', ''Sy'', ''Sz'', ''Vx'', ''Vy'', ''Vz'', ''Ax'', ''Ay'', ''Az''],
      records =
        [[Val 0, Val 0, Val 0, Val 0, Val 10, Val 20, Val 30, Val 7, Val 8, Val 9],
         [Val 5, Val 1, Val 2, Val 3, Val 11, Val 21, Val 31, Val 4, Val 5, Val 6]]\<rparr>"

definition logged_file :: "int csv" where
  "logged_file =
     \<lparr>header = [''Az'', ''Ay'', ''Ax'', ''mass'', ''Vz'', ''Vy'', ''Vx'', ''Sz'', ''Sy'', ''Sx'',
                 ''stage''],
      records =
        [[Val 9, Val 8, Val 7, Val 100, Val 30, Val 20, Val 10, Val 0, Val 0, Val 0,
          Text ''boost''],
         [Val 6, Val 5, Val 4, Val 99, Val 31, Val 21, Val 11, Val 3, Val 2, Val 1, Val 2]]\<rparr>"

definition partial_file :: "int csv" where
  "partial_file =
     \<lparr>header = [''Sx'', ''Sy'', ''Sz'', ''Vy'', ''Vz'', ''Ax'', ''Ay''],
      records = [[Val 0, Val 0, Val 0, Val 20, Val 30, Val 7, Val 8]]\<rparr>"

definition header_only_file :: "int csv" where
  "header_only_file =
     \<lparr>header = [''Sx'', ''Sy'', ''Sz'', ''Vx'', ''Vy'', ''Vz'', ''Ax'', ''Ay'', ''Az''],
      records = []\<rparr>"

definition text_file :: "int csv" where
  "text_file =
     \<lparr>header = [''Sx'', ''Sy'', ''Sz'', ''Vy'', ''Vz'', ''Ax'', ''Ay'', ''Az''],
      records = [[Text ''abc'', Val 0, Val 0, Val 20, Val 30, Val 7, Val 8, Val 9]]\<rparr>"

definition disk :: "int filesystem" where
  "disk path =
     (if path = ''flight.csv'' then File flight_file
      else if path = ''logged.csv'' then File logged_file
      else if path = ''partial.csv'' then File partial_file
      else if path = ''header.csv'' then File header_only_file
      else if path = ''text.csv'' then File text_file
      else if path = ''locked.csv'' then NoPermission
      else NoEntry)"

text \<open>A fresh process with an interactive backend: no figure yet, nothing shown.\<close>

definition idle :: "int pyplot" where
  "idle = \<lparr>interactive = True, heap = [], managed = [], screen = []\<rparr>"

section \<open>Running the statements\<close>

text \<open>
  One rule per library call: what \<open>seq\<close> does with the call in front. With them the body
  of \<open>plot_flight_data\<close> runs symbolically, statement after statement.
\<close>

lemma seq_result_Inr: "seq (result (Inr a)) f s = f a s"
  by (simp add: seq_def result_def)

lemma seq_result_Inl: "seq (result (Inl e)) f s = (Inl e, s)"
  by (simp add: seq_def result_def)

lemma seq_figure: "seq (figure d) f s = f (length (heap s)) (snd (figure d s))"
  by (simp add: seq_def figure_def)

lemma seq_add_subplot:
  "seq (add_subplot fig c p) f s =
     f (fig, length (axes (heap s ! fig))) (snd (add_subplot fig c p s))"
  by (simp add: seq_def add_subplot_def)

lemma seq_set_title:
  "seq (set_title ax t) f s = f () (modify_axes ax (\<lambda>a. a\<lparr>title := t\<rparr>) s)"
  by (simp add: seq_def set_title_def)

lemma seq_set_xlabel:
  "seq (set_xlabel ax t) f s = f () (modify_axes ax (\<lambda>a. a\<lparr>xlabel := t\<rparr>) s)"
  by (simp add: seq_def set_xlabel_def)

lemma seq_set_ylabel:
  "seq (set_ylabel ax t) f s = f () (modify_axes ax (\<lambda>a. a\<lparr>ylabel := t\<rparr>) s)"
  by (simp add: seq_def set_ylabel_def)

lemma seq_set_zlabel:
  "seq (set_zlabel ax t) f s = f () (modify_axes ax (\<lambda>a. a\<lparr>zlabel := t\<rparr>) s)"
  by (simp add: seq_def set_zlabel_def)

lemma seq_tight_layout: "seq tight_layout f s = f () (snd (tight_layout s))"
  by (simp add: seq_def tight_layout_def Let_def)

lemma broadcast_same: "broadcast_length [n, n, n] = Some n"
  by (simp add: broadcast_length_def)

text \<open>
  A plot call on three columns of one length: the line is attached, and the block goes
  on when the columns hold numbers and ends with \<open>ValueError\<close> when they do not.
\<close>

lemma seq_plot_same:
  assumes "length xs = n" and "length ys = n" and "length zs = n"
  shows "seq (plot ax xs ys zs) f s =
     (if list_all numeric (xs @ ys @ zs)
      then f () (modify_axes ax (\<lambda>a. a\<lparr>lines := lines a @ [zip xs (zip ys zs)]\<rparr>) s)
      else (Inl ValueError,
            modify_axes ax (\<lambda>a. a\<lparr>lines := lines a @ [zip xs (zip ys zs)]\<rparr>) s))"
  using assms by (simp add: seq_def plot_def broadcast_same stretch_def)

lemmas steps = seq_result_Inr seq_result_Inl seq_figure seq_add_subplot seq_set_title
  seq_set_xlabel seq_set_ylabel seq_set_zlabel seq_tight_layout

lemmas calls = figure_def add_subplot_def modify_axes_def modify_figure_def tight_layout_def
  show_def

section \<open>The table a file loads as\<close>

lemma map_of_named:
  "map_of (zip h (map g [0..<length h])) c =
     (if c \<in> set h then Some (g (index_of h c)) else None)"
proof (induction h arbitrary: g)
  case Nil
  then show ?case by simp
next
  case (Cons x h)
  have "map g [0..<length (x # h)] = g 0 # map (\<lambda>i. g (Suc i)) [0..<length h]"
    by (simp add: map_upt_Suc del: upt_Suc)
  then show ?case
    using Cons.IH [of "\<lambda>i. g (Suc i)"] by auto
qed

lemma named_columns:
  "map (\<lambda>j. (h ! j, g j)) [0..<length h] = zip h (map g [0..<length h])"
  by (rule nth_equalityI) simp_all

text \<open>A lookup in a loaded table finds the first column of that name, or raises.\<close>

lemma getitem_loaded:
  assumes "fs p = File f" and "read_csv fs p = Inr df"
  shows "getitem df c =
     (if c \<in> set (header f) then Inr (series f c) else Inl (KeyError c))"
  using assms
  by (auto simp: read_csv_def getitem_def named_columns map_of_named series_def
      split: if_splits)

lemma length_series: "length (series f c) = length (records f)"
  by (simp add: series_def)

lemma index_of_less: "c \<in> set h \<Longrightarrow> index_of h c < length h"
  by (induction h) auto

lemma well_formed_leading: "well_formed f \<Longrightarrow> leading_cols f = 0"
  by (auto simp: well_formed_def leading_cols_def split: list.splits)

lemma well_formed_header: "well_formed f \<Longrightarrow> header f \<noteq> []"
  by (auto simp: well_formed_def required_columns_def)

lemma well_formed_loads:
  assumes "well_formed f" and "fs p = File f"
  shows "\<exists>df. read_csv fs p = Inr df"
proof -
  have "\<not> list_ex (\<lambda>r. length (header f) + leading_cols f < length r) (records f)"
    using assms(1) by (auto simp: well_formed_def list_ex_iff list_all_iff)
  then show ?thesis
    using assms well_formed_header [OF assms(1)] by (simp add: read_csv_def)
qed

text \<open>In a well-formed file the loaded column is the file's column, nothing filled in.\<close>

lemma series_well_formed:
  assumes "well_formed f" and "c \<in> set (header f)"
  shows "series f c = column f c"
proof -
  have "field r (index_of (header f) c) = r ! index_of (header f) c"
    if "r \<in> set (records f)" for r
    using that assms(1) index_of_less [OF assms(2)]
    by (auto simp: field_def well_formed_def list_all_iff)
  then show ?thesis
    using assms(1) by (simp add: series_def column_def well_formed_leading)
qed

lemma length_column: "length (column f c) = length (records f)"
  by (simp add: column_def)

lemma zip3_map:
  "zip (map f xs) (zip (map g xs) (map h xs)) = map (\<lambda>x. (f x, g x, h x)) xs"
  by (induction xs) simp_all

lemma zip_columns: "zip (column f a) (zip (column f b) (column f c)) = triples f a b c"
  by (simp add: column_def triples_def zip3_map)

lemma triples_columns:
  assumes "column f a = column g a" and "column f b = column g b"
    and "column f c = column g c"
  shows "triples f a b c = triples g a b c"
  using assms by (simp add: zip_columns [symmetric])

lemma required_present:
  assumes "well_formed f"
  shows "''Sx'' \<in> set (header f)" "''Sy'' \<in> set (header f)" "''Sz'' \<in> set (header f)"
    "''Vx'' \<in> set (header f)" "''Vy'' \<in> set (header f)" "''Vz'' \<in> set (header f)"
    "''Ax'' \<in> set (header f)" "''Ay'' \<in> set (header f)" "''Az'' \<in> set (header f)"
  using assms by (simp_all add: well_formed_def required_columns_def)

section \<open>The ways a run on a loaded file ends\<close>

lemma seq_plot_series:
  "seq (plot ax (series f a) (series f b) (series f c)) k s =
     (if list_all numeric (series f a) \<and> list_all numeric (series f b) \<and>
         list_all numeric (series f c)
      then k () (modify_axes ax
        (\<lambda>x. x\<lparr>lines := lines x @ [zip (series f a) (zip (series f b) (series f c))]\<rparr>) s)
      else (Inl ValueError, modify_axes ax
        (\<lambda>x. x\<lparr>lines := lines x @ [zip (series f a) (zip (series f b) (series f c))]\<rparr>) s))"
  using seq_plot_same [of "series f a" "length (records f)" "series f b" "series f c" ax k s]
  by (simp add: length_series)

text \<open>
  With all nine columns there and holding numbers, the run shows the figure of the
  three lines.
\<close>

lemma run_complete:
  assumes "fs p = File f" and "read_csv fs p = Inr df"
    and "list_all (\<lambda>c. c \<in> set (header f)) required_columns"
    and "numeric_columns f required_columns"
  shows "plot_flight_data fs p s =
     (Inr (),
      after_show s (expected_figure
        (zip (series f ''Sx'') (zip (series f ''Sy'') (series f ''Sz'')))
        (zip (series f ''Vx'') (zip (series f ''Vy'') (series f ''Vz'')))
        (zip (series f ''Ax'') (zip (series f ''Ay'') (series f ''Az'')))))"
proof -
  note gi = getitem_loaded [of fs p f df] assms(1,2)
  show ?thesis
    using assms(3,4) unfolding required_columns_def numeric_columns_def plot_flight_data_def
    apply (simp add: gi steps seq_plot_series)
    apply (simp add: calls after_show_def expected_figure_def)
    done
qed

lemma run_well_formed:
  assumes "well_formed f" and "fs p = File f"
  shows "plot_flight_data fs p s =
     (Inr (), after_show s (expected_figure (triples f ''Sx'' ''Sy'' ''Sz'')
        (triples f ''Vx'' ''Vy'' ''Vz'') (triples f ''Ax'' ''Ay'' ''Az'')))"
proof -
  obtain df where df: "read_csv fs p = Inr df"
    using well_formed_loads [of f fs p] assms by blast
  have present: "list_all (\<lambda>c. c \<in> set (header f)) required_columns"
    using assms(1) by (simp add: well_formed_def)
  have "list_all (\<lambda>c. list_all numeric (column f c)) required_columns"
    using assms(1) by (simp add: well_formed_def)
  then have "numeric_columns f required_columns"
    using present
    by (simp add: numeric_columns_def required_columns_def series_well_formed [OF assms(1)])
  then show ?thesis
    using run_complete [of fs p f df s] assms(2) df present
    by (simp add: series_well_formed [OF assms(1)] required_present [OF assms(1)] zip_columns)
qed

text \<open>
  With a column missing and numbers in the columns plotted before it is looked up, the
  run stops at the first lookup that fails, in the panel of that column, with the
  earlier panels finished and nothing laid out or shown.
\<close>

lemma run_missing:
  assumes "fs p = File f" and "read_csv fs p = Inr df"
    and "find (\<lambda>c. c \<notin> set (header f)) required_columns = Some c"
    and "numeric_columns f (plotted_before c)"
  shows "plot_flight_data fs p s =
     (Inl (KeyError c),
      s\<lparr>heap := heap s @ [partial_figure f (index_of required_columns c div 3)],
        managed := managed s @ [length (heap s)]\<rparr>)"
proof -
  note gi = getitem_loaded [of fs p f df] assms(1,2)
  show ?thesis
    using assms(3,4) unfolding required_columns_def plotted_before_def numeric_columns_def
    apply (simp split: if_splits)
            apply (simp_all add: plot_flight_data_def gi steps seq_plot_series calls
        partial_figure_def expected_figure_def blank_panel_def)
    done
qed

text \<open>
  With a column missing, whatever the columns hold, the run fails, and with no other
  exception than the \<open>KeyError\<close> of the first missing column or the \<open>ValueError\<close> of a
  plot call before it; nothing is shown.
\<close>

lemma run_missing_fails:
  assumes "fs p = File f" and "read_csv fs p = Inr df"
    and "find (\<lambda>c. c \<notin> set (header f)) required_columns = Some c"
  shows "(fst (plot_flight_data fs p s) = Inl (KeyError c) \<or>
          fst (plot_flight_data fs p s) = Inl ValueError) \<and>
    screen (snd (plot_flight_data fs p s)) = screen s"
proof -
  note gi = getitem_loaded [of fs p f df] assms(1,2)
  show ?thesis
    using assms(3) unfolding required_columns_def
    apply (simp split: if_splits)
            apply (simp_all add: plot_flight_data_def gi steps seq_plot_series calls)
    done
qed

lemma built_after_show: "built s (after_show s F) = F"
  by (simp add: built_def after_show_def)

text \<open>On an interactive backend the figure a run built is the last one it showed.\<close>

lemma displayed_when_interactive:
  assumes "well_formed f" and "fs path = File f" and "interactive s"
  shows "last (last (screen (snd (plot_flight_data fs path s)))) =
    built s (snd (plot_flight_data fs path s))"
  using run_well_formed [of f fs path s] assms
  by (simp add: built_def after_show_def)

subsection \<open>Facts about the example inputs\<close>

lemma well_formed_flight: "well_formed flight_file"
  by (simp add: well_formed_def required_columns_def column_def flight_file_def)

lemma disk_flight: "disk ''flight.csv'' = File flight_file"
  by (simp add: disk_def)

lemma well_formed_logged: "well_formed logged_file"
  by (simp add: well_formed_def required_columns_def column_def logged_file_def)

lemma disk_logged: "disk ''logged.csv'' = File logged_file"
  by (simp add: disk_def)

lemma disk_partial: "disk ''partial.csv'' = File partial_file"
  by (simp add: disk_def)

lemma readable_partial: "readable disk ''partial.csv''"
  by (simp add: readable_def read_csv_def disk_def partial_file_def leading_cols_def)

lemma numeric_partial: "numeric_columns partial_file (plotted_before ''Vx'')"
  by (simp add: numeric_columns_def plotted_before_def required_columns_def series_def
      partial_file_def leading_cols_def field_def)

lemma first_missing_partial:
  "find (\<lambda>c. c \<notin> set (header partial_file)) required_columns = Some ''Vx''"
  by (simp add: required_columns_def partial_file_def)

lemma disk_text: "disk ''text.csv'' = File text_file"
  by (simp add: disk_def)

lemma readable_text: "readable disk ''text.csv''"
  by (simp add: readable_def read_csv_def disk_def text_file_def leading_cols_def)

lemma first_missing_text:
  "find (\<lambda>c. c \<notin> set (header text_file)) required_columns = Some ''Vx''"
  by (simp add: required_columns_def text_file_def)

text \<open>
  Text under \<open>Sx\<close> stops the run in the first plot call, with the line attached and
  the panel untitled, before the missing \<open>Vx\<close> is looked up.
\<close>

lemma run_text:
  "plot_flight_data disk ''text.csv'' idle =
     (Inl ValueError,
      idle\<lparr>heap :=
             [\<lparr>figsize = Some (15, 5),
               axes = [\<lparr>geometry = 131, projection = ''3d'',
                        lines = [[(Text ''abc'', Val 0, Val 0)]], title = [],
                        xlabel = [], ylabel = [], zlabel = []\<rparr>],
               tight = False\<rparr>],
           managed := [0]\<rparr>)"
proof -
  obtain df where df: "read_csv disk ''text.csv'' = Inr df"
    using readable_text by (auto simp: readable_def split: sum.splits)
  note gi = getitem_loaded [of disk "''text.csv''" text_file df] disk_text df
  have cols: "header text_file = [''Sx'', ''Sy'', ''Sz'', ''Vy'', ''Vz'', ''Ax'', ''Ay'', ''Az'']"
    "series text_file ''Sx'' = [Text ''abc'']" "series text_file ''Sy'' = [Val 0]"
    "series text_file ''Sz'' = [Val 0]"
    by (simp_all add: series_def text_file_def leading_cols_def field_def)
  show ?thesis
    by (simp add: plot_flight_data_def gi steps seq_plot_series cols(1))
      (simp add: calls idle_def cols(2-4))
qed

lemma run_flight:
  "plot_flight_data disk ''flight.csv'' idle =
     (Inr (), after_show idle (expected_figure
        [(Val 0, Val 0, Val 0), (Val 1, Val 2, Val 3)]
        [(Val 10, Val 20, Val 30), (Val 11, Val 21, Val 31)]
        [(Val 7, Val 8, Val 9), (Val 4, Val 5, Val 6)]))"
  using run_well_formed [of flight_file disk "''flight.csv''" idle]
    well_formed_flight disk_flight
  by (simp add: triples_def flight_file_def)

section \<open>The claims\<close>

subsection \<open>Well-formed input\<close>

text \<open>
  C1. For every well-formed input file, run from any state, the call succeeds and the
  figure it built has three panels with one line each, whose vertices are, in the order
  of the data lines of the file, the triples \<open>(Sx, Sy, Sz)\<close>, \<open>(Vx, Vy, Vz)\<close> and
  \<open>(Ax, Ay, Az)\<close> of each line: one vertex for every line, none reordered or left out.
\<close>

theorem vertices_in_row_order:
  assumes "well_formed f" and "fs path = File f"
  shows "fst (plot_flight_data fs path s) = Inr () \<and>
    map lines (axes (built s (snd (plot_flight_data fs path s)))) =
      [[triples f ''Sx'' ''Sy'' ''Sz''], [triples f ''Vx'' ''Vy'' ''Vz''],
       [triples f ''Ax'' ''Ay'' ''Az'']]"
  using run_well_formed [of f fs path s] assms
  by (simp add: built_after_show) (simp add: expected_figure_def)

theorem vertices_in_row_order_witness:
  "well_formed flight_file \<and> disk ''flight.csv'' = File flight_file \<and>
   fst (plot_flight_data disk ''flight.csv'' idle) = Inr () \<and>
   map lines (axes (built idle (snd (plot_flight_data disk ''flight.csv'' idle)))) =
     [[[(Val 0, Val 0, Val 0), (Val 1, Val 2, Val 3)]],
      [[(Val 10, Val 20, Val 30), (Val 11, Val 21, Val 31)]],
      [[(Val 7, Val 8, Val 9), (Val 4, Val 5, Val 6)]]]"
  using vertices_in_row_order [of flight_file disk "''flight.csv''" idle]
    well_formed_flight disk_flight
  by (simp add: triples_def flight_file_def)

text \<open>
  C2. For every well-formed input file the call succeeds and the figure it built has
  exactly three panels, at the places 131, 132, 133 of the one-row grid, titled
  Position, Velocity, Acceleration in that order, with the axis labels
  X (m), Y (m), Z (m), then X (m/s), Y (m/s), Z (m/s), then the same three with the
  unit m/s followed by a superscript two.
\<close>

theorem three_titled_panels:
  assumes "well_formed f" and "fs path = File f"
  shows "fst (plot_flight_data fs path s) = Inr () \<and>
    map geometry (axes (built s (snd (plot_flight_data fs path s)))) = [131, 132, 133] \<and>
    map title (axes (built s (snd (plot_flight_data fs path s)))) =
      [''Position'', ''Velocity'', ''Acceleration''] \<and>
    map xlabel (axes (built s (snd (plot_flight_data fs path s)))) =
      [''X (m)'', ''X (m/s)'', ''X (m/s'' @ [sup2] @ '')''] \<and>
    map ylabel (axes (built s (snd (plot_flight_data fs path s)))) =
      [''Y (m)'', ''Y (m/s)'', ''Y (m/s'' @ [sup2] @ '')''] \<and>
    map zlabel (axes (built s (snd (plot_flight_data fs path s)))) =
      [''Z (m)'', ''Z (m/s)'', ''Z (m/s'' @ [sup2] @ '')'']"
  using run_well_formed [of f fs path s] assms
  by (simp add: built_after_show) (simp add: expected_figure_def)

theorem three_titled_panels_witness:
  "well_formed flight_file \<and> disk ''flight.csv'' = File flight_file \<and>
   fst (plot_flight_data disk ''flight.csv'' idle) = Inr () \<and>
   map title (axes (built idle (snd (plot_flight_data disk ''flight.csv'' idle)))) =
     [''Position'', ''Velocity'', ''Acceleration'']"
  using three_titled_panels [of flight_file disk "''flight.csv''" idle]
    well_formed_flight disk_flight
  by simp

text \<open>
  C7. For a well-formed file with two data lines whose \<open>Sx\<close>, \<open>Sy\<close>, \<open>Sz\<close> columns are
  \<open>[0, 1]\<close>, \<open>[0, 2]\<close>, \<open>[0, 3]\<close>, the line of the first panel, the one titled
  Position, visits \<open>(0, 0, 0)\<close> and then \<open>(1, 2, 3)\<close>.
\<close>

theorem position_line_example:
  fixes f :: "int csv"
  assumes "well_formed f" and "fs path = File f"
    and "column f ''Sx'' = [Val 0, Val 1]"
    and "column f ''Sy'' = [Val 0, Val 2]"
    and "column f ''Sz'' = [Val 0, Val 3]"
  shows "fst (plot_flight_data fs path s) = Inr () \<and>
    title (hd (axes (built s (snd (plot_flight_data fs path s))))) = ''Position'' \<and>
    lines (hd (axes (built s (snd (plot_flight_data fs path s))))) =
      [[(Val 0, Val 0, Val 0), (Val 1, Val 2, Val 3)]]"
proof -
  have "triples f ''Sx'' ''Sy'' ''Sz'' = [(Val 0, Val 0, Val 0), (Val 1, Val 2, Val 3)]"
    using assms(3-5) by (simp add: zip_columns [symmetric])
  then show ?thesis
    using run_well_formed [of f fs path s] assms(1,2)
    by (simp add: built_after_show) (simp add: expected_figure_def)
qed

theorem position_line_example_witness:
  "well_formed flight_file \<and> disk ''flight.csv'' = File flight_file \<and>
   column flight_file ''Sx'' = [Val 0, Val 1] \<and> column flight_file ''Sy'' = [Val 0, Val 2] \<and>
   column flight_file ''Sz'' = [Val 0, Val 3] \<and>
   lines (hd (axes (built idle (snd (plot_flight_data disk ''flight.csv'' idle))))) =
     [[(Val 0, Val 0, Val 0), (Val 1, Val 2, Val 3)]]"
proof -
  have cols: "column flight_file ''Sx'' = [Val 0, Val 1]"
    "column flight_file ''Sy'' = [Val 0, Val 2]"
    "column flight_file ''Sz'' = [Val 0, Val 3]"
    by (simp_all add: column_def flight_file_def)
  show ?thesis
    using position_line_example [of flight_file disk "''flight.csv''" idle]
      well_formed_flight disk_flight cols
    by simp
qed

text \<open>
  C9. For a file whose header has the nine names and which has no data line, the call
  succeeds: the figure it built has the three panels with their titles and labels,
  each with one line of no vertex.
\<close>

theorem header_only_file_plots_empty_lines:
  assumes "list_all (\<lambda>c. c \<in> set (header f)) required_columns"
    and "records f = []" and "fs path = File f"
  shows "fst (plot_flight_data fs path s) = Inr () \<and>
    map lines (axes (built s (snd (plot_flight_data fs path s)))) = [[[]], [[]], [[]]] \<and>
    map title (axes (built s (snd (plot_flight_data fs path s)))) =
      [''Position'', ''Velocity'', ''Acceleration''] \<and>
    map xlabel (axes (built s (snd (plot_flight_data fs path s)))) =
      [''X (m)'', ''X (m/s)'', ''X (m/s'' @ [sup2] @ '')''] \<and>
    map ylabel (axes (built s (snd (plot_flight_data fs path s)))) =
      [''Y (m)'', ''Y (m/s)'', ''Y (m/s'' @ [sup2] @ '')''] \<and>
    map zlabel (axes (built s (snd (plot_flight_data fs path s)))) =
      [''Z (m)'', ''Z (m/s)'', ''Z (m/s'' @ [sup2] @ '')'']"
proof -
  have "well_formed f"
    using assms(1,2) by (simp add: well_formed_def column_def required_columns_def)
  moreover have "triples f a b c = []" for a b c
    using assms(2) by (simp add: triples_def)
  ultimately show ?thesis
    using run_well_formed [of f fs path s] assms(3)
    by (simp add: built_after_show) (simp add: expected_figure_def)
qed

theorem header_only_file_plots_empty_lines_witness:
  "list_all (\<lambda>c. c \<in> set (header header_only_file)) required_columns \<and>
   records header_only_file = [] \<and> disk ''header.csv'' = File header_only_file \<and>
   fst (plot_flight_data disk ''header.csv'' idle) = Inr () \<and>
   map lines (axes (built idle (snd (plot_flight_data disk ''header.csv'' idle)))) =
     [[[]], [[]], [[]]]"
proof -
  have h: "list_all (\<lambda>c. c \<in> set (header header_only_file)) required_columns"
    "records header_only_file = []" "disk ''header.csv'' = File header_only_file"
    by (simp_all add: required_columns_def header_only_file_def disk_def)
  show ?thesis
    using header_only_file_plots_empty_lines [of header_only_file disk "''header.csv''" idle] h
    by simp
qed

subsection \<open>Input that cannot be plotted\<close>

text \<open>
  C4. For every path that names no file, or a file that may not be read, the call ends
  with the exception of the load step, \<open>FileNotFoundError\<close> or \<open>PermissionError\<close>, a
  data-access failure and not a missing-column one, in the state it started in: no
  figure and no panel was made.
\<close>

theorem missing_file_is_data_access_failure:
  assumes "fs path = NoEntry \<or> fs path = NoPermission"
  shows "\<exists>e. plot_flight_data fs path s = (Inl e, s) \<and>
    e = (if fs path = NoEntry then FileNotFoundError path else PermissionError path) \<and>
    is_data_access e \<and> \<not> is_schema e"
proof -
  from assms consider
    "fs path = NoEntry" "read_csv fs path = Inl (FileNotFoundError path)"
    | "fs path \<noteq> NoEntry" "read_csv fs path = Inl (PermissionError path)"
    by (auto simp: read_csv_def)
  then show ?thesis
    by cases (simp_all add: plot_flight_data_def seq_result_Inl)
qed

theorem missing_file_is_data_access_failure_witness:
  "disk ''nowhere.csv'' = NoEntry \<and>
   plot_flight_data disk ''nowhere.csv'' idle = (Inl (FileNotFoundError ''nowhere.csv''), idle)"
  using missing_file_is_data_access_failure [of disk "''nowhere.csv''" idle]
  by (auto simp: disk_def)

text \<open>
  C10. For every readable file that lacks some of the nine columns, the call fails, and
  the only \<open>KeyError\<close> it can end with is that of the first of
  \<open>Sx, Sy, Sz, Vx, Vy, Vz, Ax, Ay, Az\<close> that the header does not have, whatever else is
  missing. It does end with that \<open>KeyError\<close> when the columns plotted before the
  lookup, those of the panels before the panel of the missing column, hold numbers.
  (Text in one of them ends the call earlier, in the plot call, with \<open>ValueError\<close>:
  see \<open>run_text\<close>.)
\<close>

theorem first_missing_column_reported:
  assumes "fs path = File f" and "readable fs path"
    and "find (\<lambda>c. c \<notin> set (header f)) required_columns = Some c"
  shows "(numeric_columns f (plotted_before c) \<longrightarrow>
      fst (plot_flight_data fs path s) = Inl (KeyError c)) \<and>
    (\<forall>c'. fst (plot_flight_data fs path s) = Inl (KeyError c') \<longrightarrow> c' = c) \<and>
    (\<exists>e. fst (plot_flight_data fs path s) = Inl e)"
proof -
  obtain df where df: "read_csv fs path = Inr df"
    using assms(2) by (auto simp: readable_def split: sum.splits)
  have "fst (plot_flight_data fs path s) = Inl (KeyError c)"
    if "numeric_columns f (plotted_before c)"
    using run_missing [of fs path f df c s] assms(1,3) df that by simp
  moreover have "fst (plot_flight_data fs path s) = Inl (KeyError c) \<or>
      fst (plot_flight_data fs path s) = Inl ValueError"
    using run_missing_fails [of fs path f df c s] assms(1,3) df by simp
  ultimately show ?thesis
    by auto
qed

theorem first_missing_column_reported_witness:
  "disk ''partial.csv'' = File partial_file \<and> readable disk ''partial.csv'' \<and>
   ''Vx'' \<notin> set (header partial_file) \<and> ''Vz'' \<in> set (header partial_file) \<and>
   ''Az'' \<notin> set (header partial_file) \<and>
   numeric_columns partial_file (plotted_before ''Vx'') \<and>
   fst (plot_flight_data disk ''partial.csv'' idle) = Inl (KeyError ''Vx'')"
proof -
  have hdr: "''Vx'' \<notin> set (header partial_file)" "''Vz'' \<in> set (header partial_file)"
    "''Az'' \<notin> set (header partial_file)"
    by (simp_all add: partial_file_def)
  have "fst (plot_flight_data disk ''partial.csv'' idle) = Inl (KeyError ''Vx'')"
    using first_missing_column_reported [of disk "''partial.csv''" partial_file "''Vx''" idle]
      disk_partial readable_partial first_missing_partial numeric_partial
    by blast
  then show ?thesis
    using disk_partial readable_partial numeric_partial hdr by blast
qed

text \<open>
  C3, as the specification states it, fails. The file \<open>partial.csv\<close> is readable and
  lacks \<open>Vx\<close>: when the call ends with \<open>KeyError Vx\<close>, the figure it was building
  already has the Position panel with its line and its title.
\<close>

theorem partial_figure_counterexample:
  "readable disk ''partial.csv'' \<and> ''Vx'' \<notin> set (header partial_file) \<and>
   disk ''partial.csv'' = File partial_file \<and>
   fst (plot_flight_data disk ''partial.csv'' idle) = Inl (KeyError ''Vx'') \<and>
   \<not> nothing_drawn idle (snd (plot_flight_data disk ''partial.csv'' idle)) \<and>
   title (hd (axes (built idle (snd (plot_flight_data disk ''partial.csv'' idle))))) =
     ''Position'' \<and>
   lines (hd (axes (built idle (snd (plot_flight_data disk ''partial.csv'' idle))))) =
     [[(Val 0, Val 0, Val 0)]]"
proof -
  obtain df where df: "read_csv disk ''partial.csv'' = Inr df"
    using readable_partial by (auto simp: readable_def split: sum.splits)
  have run: "plot_flight_data disk ''partial.csv'' idle =
      (Inl (KeyError ''Vx''),
       idle\<lparr>heap := heap idle @ [partial_figure partial_file 1],
            managed := managed idle @ [length (heap idle)]\<rparr>)"
    using run_missing [of disk "''partial.csv''" partial_file df "''Vx''" idle]
      disk_partial df first_missing_partial numeric_partial
    by (simp add: required_columns_def)
  show ?thesis
    using readable_partial disk_partial
    by (simp add: run built_def nothing_drawn_def)
      (simp add: idle_def partial_figure_def expected_figure_def series_def partial_file_def
        leading_cols_def field_def)
qed

text \<open>
  C3, amended. For every readable file that lacks some of the nine columns, the call
  fails before the figure is shown: nothing new is on the screen. When the columns
  plotted before the first missing column is looked up hold numbers, the call ends
  with the \<open>KeyError\<close> of that column, before the figure is laid out, and leaves the
  state it started in with one more figure, \<open>partial_figure\<close>: the panels before that
  column's panel finished, each with its line of the file's triples, its title and its
  labels, and that column's panel as \<open>add_subplot\<close> made it, with no line, title or
  label. No line, title or label at all has been produced exactly when the first
  missing column is \<open>Sx\<close>, \<open>Sy\<close> or \<open>Sz\<close>.
\<close>

theorem missing_column_fails_unshown:
  assumes "fs path = File f" and "readable fs path"
    and "find (\<lambda>c. c \<notin> set (header f)) required_columns = Some c"
  shows "(\<exists>e. fst (plot_flight_data fs path s) = Inl e) \<and>
    screen (snd (plot_flight_data fs path s)) = screen s \<and>
    (numeric_columns f (plotted_before c) \<longrightarrow>
      plot_flight_data fs path s =
        (Inl (KeyError c),
         s\<lparr>heap := heap s @ [partial_figure f (index_of required_columns c div 3)],
           managed := managed s @ [length (heap s)]\<rparr>) \<and>
      built s (snd (plot_flight_data fs path s)) =
        partial_figure f (index_of required_columns c div 3) \<and>
      map title (axes (built s (snd (plot_flight_data fs path s)))) =
        take (index_of required_columns c div 3) [''Position'', ''Velocity'', ''Acceleration'']
          @ [[]] \<and>
      last (axes (built s (snd (plot_flight_data fs path s)))) =
        blank_panel (131 + index_of required_columns c div 3) \<and>
      nothing_drawn s (snd (plot_flight_data fs path s)) = (c \<in> {''Sx'', ''Sy'', ''Sz''}))"
proof -
  obtain df where df: "read_csv fs path = Inr df"
    using assms(2) by (auto simp: readable_def split: sum.splits)
  have fails: "(\<exists>e. fst (plot_flight_data fs path s) = Inl e) \<and>
      screen (snd (plot_flight_data fs path s)) = screen s"
    using run_missing_fails [of fs path f df c s] assms(1,3) df by auto
  have "c \<in> set required_columns"
    using assms(3) by (auto simp: find_Some_iff)
  then consider
    "index_of required_columns c div 3 = 0" "c \<in> {''Sx'', ''Sy'', ''Sz''}"
    | "index_of required_columns c div 3 = 1" "c \<notin> {''Sx'', ''Sy'', ''Sz''}"
    | "index_of required_columns c div 3 = 2" "c \<notin> {''Sx'', ''Sy'', ''Sz''}"
    by (auto simp: required_columns_def)
  note panel = this
  have "plot_flight_data fs path s =
        (Inl (KeyError c),
         s\<lparr>heap := heap s @ [partial_figure f (index_of required_columns c div 3)],
           managed := managed s @ [length (heap s)]\<rparr>) \<and>
      built s (snd (plot_flight_data fs path s)) =
        partial_figure f (index_of required_columns c div 3) \<and>
      map title (axes (built s (snd (plot_flight_data fs path s)))) =
        take (index_of required_columns c div 3) [''Position'', ''Velocity'', ''Acceleration'']
          @ [[]] \<and>
      last (axes (built s (snd (plot_flight_data fs path s)))) =
        blank_panel (131 + index_of required_columns c div 3) \<and>
      nothing_drawn s (snd (plot_flight_data fs path s)) = (c \<in> {''Sx'', ''Sy'', ''Sz''})"
    if num: "numeric_columns f (plotted_before c)"
  proof -
    have run: "plot_flight_data fs path s =
        (Inl (KeyError c),
         s\<lparr>heap := heap s @ [partial_figure f (index_of required_columns c div 3)],
           managed := managed s @ [length (heap s)]\<rparr>)"
      using run_missing [of fs path f df c s] assms(1,3) df num by simp
    from panel show ?thesis
    proof cases
      case 1
      then show ?thesis
        by (simp add: run built_def) (simp add: partial_figure_def expected_figure_def
            blank_panel_def nothing_drawn_def)
    next
      case 2
      then show ?thesis
        by (simp add: run built_def) (simp add: partial_figure_def expected_figure_def
            blank_panel_def nothing_drawn_def)
    next
      case 3
      then show ?thesis
        by (simp add: run built_def) (simp add: partial_figure_def expected_figure_def
            blank_panel_def nothing_drawn_def)
    qed
  qed
  with fails show ?thesis
    by blast
qed

theorem missing_column_fails_unshown_witness:
  "disk ''partial.csv'' = File partial_file \<and> readable disk ''partial.csv'' \<and>
   find (\<lambda>c. c \<notin> set (header partial_file)) required_columns = Some ''Vx'' \<and>
   numeric_columns partial_file (plotted_before ''Vx'') \<and>
   fst (plot_flight_data disk ''partial.csv'' idle) = Inl (KeyError ''Vx'') \<and>
   screen (snd (plot_flight_data disk ''partial.csv'' idle)) = screen idle \<and>
   axes (built idle (snd (plot_flight_data disk ''partial.csv'' idle))) =
     [\<lparr>geometry = 131, projection = ''3d'', lines = [[(Val 0, Val 0, Val 0)]],
       title = ''Position'', xlabel = ''X (m)'', ylabel = ''Y (m)'', zlabel = ''Z (m)''\<rparr>,
      \<lparr>geometry = 132, projection = ''3d'', lines = [], title = [],
       xlabel = [], ylabel = [], zlabel = []\<rparr>]"
proof -
  have panels: "axes (partial_figure partial_file (index_of required_columns ''Vx'' div 3)) =
     [\<lparr>geometry = 131, projection = ''3d'', lines = [[(Val 0, Val 0, Val 0)]],
       title = ''Position'', xlabel = ''X (m)'', ylabel = ''Y (m)'', zlabel = ''Z (m)''\<rparr>,
      \<lparr>geometry = 132, projection = ''3d'', lines = [], title = [],
       xlabel = [], ylabel = [], zlabel = []\<rparr>]"
    by (simp add: required_columns_def partial_figure_def expected_figure_def blank_panel_def
        series_def partial_file_def leading_cols_def field_def)
  have "screen (snd (plot_flight_data disk ''partial.csv'' idle)) = screen idle"
    and "plot_flight_data disk ''partial.csv'' idle =
      (Inl (KeyError ''Vx''),
       idle\<lparr>heap := heap idle @
              [partial_figure partial_file (index_of required_columns ''Vx'' div 3)],
            managed := managed idle @ [length (heap idle)]\<rparr>)"
    and "built idle (snd (plot_flight_data disk ''partial.csv'' idle)) =
      partial_figure partial_file (index_of required_columns ''Vx'' div 3)"
    using missing_column_fails_unshown [of disk "''partial.csv''" partial_file "''Vx''" idle]
      disk_partial readable_partial first_missing_partial numeric_partial
    by (simp_all add: built_def)
  then show ?thesis
    using disk_partial readable_partial first_missing_partial numeric_partial panels
    by simp
qed

subsection \<open>What the output depends on\<close>

text \<open>
  C5. Running the call twice on the same well-formed file, the second time in the state
  the first run left, succeeds both times, and the figure of the second run has the same
  lines, vertex by vertex, as the figure of the first; the second run leaves the figure
  of the first as it was.
\<close>

theorem rerun_same_vertices:
  assumes "well_formed f" and "fs path = File f"
    and "plot_flight_data fs path s = (r1, s1)"
    and "plot_flight_data fs path s1 = (r2, s2)"
  shows "r1 = Inr () \<and> r2 = Inr () \<and>
    map lines (axes (built s1 s2)) = map lines (axes (built s s1)) \<and>
    built s s2 = built s s1"
proof -
  let ?F = "expected_figure (triples f ''Sx'' ''Sy'' ''Sz'') (triples f ''Vx'' ''Vy'' ''Vz'')
      (triples f ''Ax'' ''Ay'' ''Az'')"
  have first: "r1 = Inr ()" "s1 = after_show s ?F"
    using run_well_formed [of f fs path s] assms(1-3) by simp_all
  have second: "r2 = Inr ()" "s2 = after_show s1 ?F"
    using run_well_formed [of f fs path s1] assms(1,2,4) by simp_all
  have "built s1 s2 = ?F" "built s s1 = ?F"
    by (simp_all add: first(2) second(2) built_after_show)
  moreover have "built s s2 = ?F"
    by (simp add: first(2) second(2) built_def after_show_def nth_append)
  ultimately show ?thesis
    using first(1) second(1) by simp
qed

theorem rerun_same_vertices_witness:
  "well_formed flight_file \<and> disk ''flight.csv'' = File flight_file \<and>
   map lines (axes (built (snd (plot_flight_data disk ''flight.csv'' idle))
     (snd (plot_flight_data disk ''flight.csv''
        (snd (plot_flight_data disk ''flight.csv'' idle)))))) =
   map lines (axes (built idle (snd (plot_flight_data disk ''flight.csv'' idle)))) \<and>
   map lines (axes (built idle (snd (plot_flight_data disk ''flight.csv'' idle)))) =
     [[[(Val 0, Val 0, Val 0), (Val 1, Val 2, Val 3)]],
      [[(Val 10, Val 20, Val 30), (Val 11, Val 21, Val 31)]],
      [[(Val 7, Val 8, Val 9), (Val 4, Val 5, Val 6)]]]"
proof -
  have "map lines (axes (built idle (snd (plot_flight_data disk ''flight.csv'' idle)))) =
     [[[(Val 0, Val 0, Val 0), (Val 1, Val 2, Val 3)]],
      [[(Val 10, Val 20, Val 30), (Val 11, Val 21, Val 31)]],
      [[(Val 7, Val 8, Val 9), (Val 4, Val 5, Val 6)]]]"
    by (simp add: run_flight built_after_show) (simp add: expected_figure_def)
  then show ?thesis
    using rerun_same_vertices [of flight_file disk "''flight.csv''" idle
        "fst (plot_flight_data disk ''flight.csv'' idle)"
        "snd (plot_flight_data disk ''flight.csv'' idle)"
        "fst (plot_flight_data disk ''flight.csv''
           (snd (plot_flight_data disk ''flight.csv'' idle)))"
        "snd (plot_flight_data disk ''flight.csv''
           (snd (plot_flight_data disk ''flight.csv'' idle)))"]
      well_formed_flight disk_flight
    by simp
qed

text \<open>
  C6. Two well-formed files that hold the same values, line by line, under each of the
  nine column names give the same outcome from the same state, whatever other columns
  they have and wherever the nine stand in the header: the same panels with the same
  vertices, titles and labels.
\<close>

theorem extra_columns_ignored:
  assumes "well_formed f1" and "well_formed f2"
    and "fs1 path1 = File f1" and "fs2 path2 = File f2"
    and "list_all (\<lambda>c. column f1 c = column f2 c) required_columns"
  shows "plot_flight_data fs1 path1 s = plot_flight_data fs2 path2 s"
proof -
  have "triples f1 ''Sx'' ''Sy'' ''Sz'' = triples f2 ''Sx'' ''Sy'' ''Sz''"
    "triples f1 ''Vx'' ''Vy'' ''Vz'' = triples f2 ''Vx'' ''Vy'' ''Vz''"
    "triples f1 ''Ax'' ''Ay'' ''Az'' = triples f2 ''Ax'' ''Ay'' ''Az''"
    using assms(5) by (auto simp: required_columns_def intro: triples_columns)
  then show ?thesis
    using run_well_formed [of f1 fs1 path1 s] run_well_formed [of f2 fs2 path2 s] assms(1-4)
    by simp
qed

theorem extra_columns_ignored_witness:
  "well_formed flight_file \<and> well_formed logged_file \<and>
   disk ''flight.csv'' = File flight_file \<and> disk ''logged.csv'' = File logged_file \<and>
   list_all (\<lambda>c. column flight_file c = column logged_file c) required_columns \<and>
   header flight_file \<noteq> header logged_file \<and>
   plot_flight_data disk ''flight.csv'' idle = plot_flight_data disk ''logged.csv'' idle"
proof -
  have same: "list_all (\<lambda>c. column flight_file c = column logged_file c) required_columns"
    by (simp add: required_columns_def column_def flight_file_def logged_file_def)
  have "header flight_file \<noteq> header logged_file"
    by (simp add: flight_file_def logged_file_def)
  then show ?thesis
    using extra_columns_ignored [of flight_file logged_file disk "''flight.csv''" disk
        "''logged.csv''" idle]
      well_formed_flight well_formed_logged disk_flight disk_logged same
    by simp
qed

text \<open>
  C8. Run as the program, the module calls \<open>plot_flight_data\<close> with one literal path,
  whatever the argument vector is: two argument vectors give the same run.
\<close>

theorem entry_point_ignores_arguments:
  "main ''__main__'' argv fs s =
     plot_flight_data fs ''/Users/adambyrne/.launchrail/motion/2025-01-26T21:47:39.csv'' s \<and>
   main name argv fs s = main name argv' fs s"
  by (simp add: main_def script_path_def)

theorem entry_point_ignores_arguments_witness:
  "main ''__main__'' [''sample.py'', ''flight.csv''] disk idle =
     (Inl (FileNotFoundError ''/Users/adambyrne/.launchrail/motion/2025-01-26T21:47:39.csv''),
      idle)"
proof -
  have "plot_flight_data disk ''/Users/adambyrne/.launchrail/motion/2025-01-26T21:47:39.csv''
      idle =
     (Inl (FileNotFoundError ''/Users/adambyrne/.launchrail/motion/2025-01-26T21:47:39.csv''),
      idle)"
    by (simp add: plot_flight_data_def read_csv_def disk_def seq_result_Inl)
  then show ?thesis
    using entry_point_ignores_arguments [of "[''sample.py'', ''flight.csv'']" disk idle]
    by simp
qed

end
